theory Spec2Isabelle
  imports Complex_Main
begin

section \<open>Data model\<close>

text \<open>
  The backend keeps two tables in a PostgreSQL/PostGIS store: \<open>"Place"\<close> and \<open>"User"\<close>.
  A table is modelled as the list of its rows, in storage order. Everything the code leaves
  to the database engine or to a library (the geodesic computation of PostGIS and its parser
  of point texts, the hash comparison of bcrypt, the JWT signer, the parser of floating-point
  literals, the width in which the store client binds an integer) is a parameter of the
  model; the code of the repository itself (services and controllers) is translated function
  by function.
\<close>

record geography =
  point_lng :: real
  point_lat :: real

record place =
  place_id :: int
  name :: string
  description :: "string option"
  location :: geography

record user =
  user_id :: int
  username :: string
  email :: string
  password :: string
  fullName :: "string option"
  avatarUrl :: "string option"
  bio :: "string option"
  website :: "string option"
  instagram :: "string option"
  twitter :: "string option"
  facebook :: "string option"
  city :: "string option"
  country :: "string option"
  storyCount :: int
  likeCount :: int
  commentCount :: int
  coordinates :: "geography option"
  createdAt :: nat
  updatedAt :: nat

record db =
  places :: "place list"
  place_seq :: int
  users :: "user list"

text \<open>
  An \<open>Error\<close> thrown by the repository's own code carries its message; a failure raised by
  the store client (Prisma) or by the database engine, and one raised by another library,
  carries the name of what failed. Controllers only ever inspect the message.
\<close>

datatype error = Error string | StoreError string | LibraryError string

fun message :: "error \<Rightarrow> string" where
  "message (Error m) = m"
| "message (StoreError c) = c"
| "message (LibraryError c) = c"

text \<open>
  A field of a JSON body is any JSON scalar or absent (arrays and objects are not modelled).
  \<open>truthy\<close> is JavaScript's truthiness, the test behind \<open>!field\<close>.
\<close>

datatype jsval = JUndefined | JNull | JBool bool | JNum real | JStr string

fun truthy :: "jsval \<Rightarrow> bool" where
  "truthy JUndefined = False"
| "truthy JNull = False"
| "truthy (JBool b) = b"
| "truthy (JNum x) = (x \<noteq> 0)"
| "truthy (JStr s) = (s \<noteq> [])"

text \<open>An HTTP answer: the status code and the JSON body, which is \<open>{error: msg}\<close> or a payload.\<close>

datatype 'a http_body = error_json string | json 'a

type_synonym 'a response = "nat \<times> 'a http_body"

section \<open>User service: profile, statistics, deletion, login\<close>

text \<open>
  \<open>getUserProfileService\<close>: \<open>SELECT ... FROM "User" WHERE id = userId\<close>, answering the first
  row or \<open>null\<close>. The select list (every column but \<open>email\<close> and \<open>password\<close>) is not
  modelled: a result row is identified with the stored row.
\<close>

definition getUserProfileService :: "db \<Rightarrow> int \<Rightarrow> user option" where
  "getUserProfileService d userId = find (\<lambda>u. user_id u = userId) (users d)"

definition validStats :: "string list" where
  "validStats = [''storyCount'', ''likeCount'', ''commentCount'']"

text \<open>
  The engagement counters are \<open>INTEGER\<close> columns: 32-bit signed integers.
\<close>

definition int4_min :: int where
  "int4_min = - 2147483648"

definition int4_max :: int where
  "int4_max = 2147483647"

definition in_int4 :: "int \<Rightarrow> bool" where
  "in_int4 v = (int4_min \<le> v \<and> v \<le> int4_max)"

text \<open>
  The value that \<open>SET c = GREATEST(0, c + increment)\<close> writes into a counter, or \<open>None\<close>
  where the engine raises \<open>integer out of range\<close> (SQLSTATE 22003). The sources do not
  determine in which width the store client binds the increment, so this is the parameter
  \<open>wide_bind\<close>: bound as a 64-bit integer, the sum and the maximum are computed in 64 bits and
  the result must fit the 32-bit column; bound as a 32-bit integer, the sum itself is a 32-bit
  addition and must fit. Either way a result above \<open>2147483647\<close> raises.
\<close>

definition counter_after :: "bool \<Rightarrow> int \<Rightarrow> int \<Rightarrow> int option" where
  "counter_after wide_bind c increment =
     (if wide_bind
      then (if max 0 (c + increment) \<le> int4_max then Some (max 0 (c + increment)) else None)
      else (if in_int4 (c + increment) then Some (max 0 (c + increment)) else None))"

text \<open>
  The three raw \<open>UPDATE "User" SET c = GREATEST(0, c + increment), "updatedAt" = NOW()
  WHERE id = userId\<close> statements, one per counter, on a single row: \<open>None\<close> where the
  assignment raises.
\<close>

definition update_storyCount :: "bool \<Rightarrow> nat \<Rightarrow> int \<Rightarrow> int \<Rightarrow> user \<Rightarrow> user option" where
  "update_storyCount wide_bind now userId increment u =
     (if user_id u = userId
      then map_option (\<lambda>v. u\<lparr>storyCount := v, updatedAt := now\<rparr>)
             (counter_after wide_bind (storyCount u) increment)
      else Some u)"

definition update_likeCount :: "bool \<Rightarrow> nat \<Rightarrow> int \<Rightarrow> int \<Rightarrow> user \<Rightarrow> user option" where
  "update_likeCount wide_bind now userId increment u =
     (if user_id u = userId
      then map_option (\<lambda>v. u\<lparr>likeCount := v, updatedAt := now\<rparr>)
             (counter_after wide_bind (likeCount u) increment)
      else Some u)"

definition update_commentCount :: "bool \<Rightarrow> nat \<Rightarrow> int \<Rightarrow> int \<Rightarrow> user \<Rightarrow> user option" where
  "update_commentCount wide_bind now userId increment u =
     (if user_id u = userId
      then map_option (\<lambda>v. u\<lparr>commentCount := v, updatedAt := now\<rparr>)
             (counter_after wide_bind (commentCount u) increment)
      else Some u)"

text \<open>
  A statement is atomic: when the assignment raises on some row, the statement fails with
  the engine's error and writes nothing.
\<close>

definition executeRaw_update :: "(user \<Rightarrow> user option) \<Rightarrow> db \<Rightarrow> error + db" where
  "executeRaw_update row_update d =
     (case those (map row_update (users d)) of
        None \<Rightarrow> Inl (StoreError ''22003'')
      | Some us \<Rightarrow> Inr (d\<lparr>users := us\<rparr>))"

text \<open>
  \<open>updateUserStatsService(userId, statType, increment = 1)\<close>; \<open>None\<close> is the omitted
  argument. A client that binds 32-bit integers refuses an increment or an id outside the
  32-bit range before the statement runs.
\<close>

definition updateUserStatsService ::
  "bool \<Rightarrow> nat \<Rightarrow> db \<Rightarrow> int \<Rightarrow> string \<Rightarrow> int option \<Rightarrow> (error + user option) \<times> db" where
  "updateUserStatsService wide_bind now d userId statType increment_arg =
     (let increment = (case increment_arg of None \<Rightarrow> 1 | Some i \<Rightarrow> i) in
      if statType \<notin> set validStats
      then (Inl (Error (''Invalid stat type: '' @ statType)), d)
      else if \<not> wide_bind \<and> \<not> (in_int4 increment \<and> in_int4 userId)
      then (Inl (StoreError ''integer parameter out of range''), d)
      else
        (case (if statType = ''storyCount''
               then executeRaw_update (update_storyCount wide_bind now userId increment) d
               else if statType = ''likeCount''
               then executeRaw_update (update_likeCount wide_bind now userId increment) d
               else if statType = ''commentCount''
               then executeRaw_update (update_commentCount wide_bind now userId increment) d
               else Inr d) of
           Inl err \<Rightarrow> (Inl err, d)
         | Inr d' \<Rightarrow> (Inr (getUserProfileService d' userId), d')))"

text \<open>Reading a counter by its column name, and a run of stat updates applied in order.\<close>

definition stat :: "string \<Rightarrow> user \<Rightarrow> int" where
  "stat statType u =
     (if statType = ''storyCount'' then storyCount u
      else if statType = ''likeCount'' then likeCount u
      else commentCount u)"

definition counters_ok :: "user \<Rightarrow> bool" where
  "counters_ok u = (0 \<le> storyCount u \<and> 0 \<le> likeCount u \<and> 0 \<le> commentCount u)"

definition counters_nonneg :: "db \<Rightarrow> bool" where
  "counters_nonneg d = list_all counters_ok (users d)"

fun stat_updates :: "bool \<Rightarrow> nat \<Rightarrow> db \<Rightarrow> (int \<times> string \<times> int option) list \<Rightarrow> db" where
  "stat_updates wide_bind now d [] = d"
| "stat_updates wide_bind now d ((userId, statType, increment) # rest) =
     stat_updates wide_bind now
       (snd (updateUserStatsService wide_bind now d userId statType increment)) rest"

text \<open>
  \<open>deleteUserService\<close>: \<open>prisma.user.delete({where: {id: userId}})\<close>. The client's
  \<open>delete\<close> removes the one row with that primary key and raises its record-not-found
  error (code P2025) when there is none.
\<close>

definition deleteUserService :: "db \<Rightarrow> int \<Rightarrow> (error + bool) \<times> db" where
  "deleteUserService d userId =
     (if list_ex (\<lambda>u. user_id u = userId) (users d)
      then (Inr True, d\<lparr>users := filter (\<lambda>u. user_id u \<noteq> userId) (users d)\<rparr>)
      else (Inl (StoreError ''P2025''), d))"

text \<open>
  \<open>deleteUser\<close> (controller), entered after \<open>authenticateToken\<close> and \<open>authorizeOwner\<close>
  with \<open>userId = parseInt(req.params.id)\<close>. The pre-fetch of the profile only serves the
  removal of the avatar at the image host, which never throws and does not touch the store.
\<close>

definition deleteUser :: "db \<Rightarrow> int \<Rightarrow> string response \<times> db" where
  "deleteUser d userId =
     (case deleteUserService d userId of
        (Inr ok, d') \<Rightarrow> ((200, json ''User account deleted successfully''), d')
      | (Inl err, d') \<Rightarrow> ((500, error_json ''Failed to delete user account''), d'))"

text \<open>
  \<open>loginUserService(emailOrUsername, password)\<close>, on the two body fields as they arrive.
  \<open>findFirst\<close> answers the first row matching the \<open>OR\<close> of the two equalities; the store
  client refuses a filter value that is not a string. \<open>bcrypt.compare(password, hash)\<close>
  runs only once a user is found; it rejects data that is not a string, and on strings it is
  the parameter \<open>bcrypt_compare\<close>. \<open>jwt_sign\<close> signs the payload \<open>{userId, username}\<close>.
\<close>

definition loginUserService ::
  "(string \<Rightarrow> string \<Rightarrow> bool) \<Rightarrow> (int \<Rightarrow> string \<Rightarrow> string) \<Rightarrow> db \<Rightarrow> jsval \<Rightarrow> jsval
     \<Rightarrow> error + user \<times> string" where
  "loginUserService bcrypt_compare jwt_sign d emailOrUsername pw =
     (case emailOrUsername of
        JStr e \<Rightarrow>
          (case find (\<lambda>u. email u = e \<or> username u = e) (users d) of
             None \<Rightarrow> Inl (Error ''Invalid credentials'')
           | Some u \<Rightarrow>
               (case pw of
                  JStr p \<Rightarrow>
                    if \<not> bcrypt_compare p (password u) then Inl (Error ''Invalid credentials'')
                    else Inr (u, jwt_sign (user_id u) (username u))
                | _ \<Rightarrow> Inl (LibraryError ''bcrypt.compare'')))
      | _ \<Rightarrow> Inl (StoreError ''PrismaClientValidationError''))"

text \<open>
  \<open>loginUser\<close> (controller): \<open>!emailOrUsername || !password\<close> is answered 400, the
  service's \<open>Invalid credentials\<close> 401, any other throw 500. The payload of a success is the
  message, the user (whose \<open>password\<close> the service strips) and the token.
\<close>

definition loginUser ::
  "(string \<Rightarrow> string \<Rightarrow> bool) \<Rightarrow> (int \<Rightarrow> string \<Rightarrow> string) \<Rightarrow> db \<Rightarrow> jsval \<Rightarrow> jsval
     \<Rightarrow> (string \<times> user \<times> string) response" where
  "loginUser bcrypt_compare jwt_sign d body_emailOrUsername body_password =
     (if truthy body_emailOrUsername \<and> truthy body_password
      then (case loginUserService bcrypt_compare jwt_sign d body_emailOrUsername body_password of
              Inr (u, token) \<Rightarrow> (200, json (''Login successful'', u, token))
            | Inl err \<Rightarrow>
                if message err = ''Invalid credentials''
                then (401, error_json ''Invalid email/username or password'')
                else (500, error_json ''Login failed''))
      else (400, error_json ''Email/username and password are required''))"

section \<open>Coordinates handed to the engine\<close>

text \<open>
  A latitude or longitude of a JSON body is any JSON value or absent. The services splice
  the two values into the template \<open>SRID=4326;POINT(${longitude} ${latitude})\<close> and hand the
  text to \<open>ST_GeographyFromText\<close>; the text is kept structured here, and the engine's
  parser is the parameter \<open>geog\<close>, which answers \<open>None\<close> where the engine raises.
\<close>

datatype ewkt = SRID4326_POINT jsval jsval

section \<open>Place service\<close>

record place_body =
  body_name :: "string option"
  body_description :: "string option"
  body_latitude :: jsval
  body_longitude :: jsval

text \<open>
  \<open>createPlaceService\<close>: one \<open>INSERT INTO "Place" (name, description, location)\<close>. The
  statement fails when the engine rejects the point text or when \<open>name\<close>, a \<open>NOT NULL\<close>
  column, is absent; otherwise the row is appended under the next value of the \<open>SERIAL\<close>
  key. The insert that fails on the absent name has drawn its key already: that value of the
  sequence is spent.
\<close>

definition createPlaceService ::
  "(ewkt \<Rightarrow> geography option) \<Rightarrow> db \<Rightarrow> place_body \<Rightarrow> (error + string) \<times> db" where
  "createPlaceService geog d body =
     (let location_text = SRID4326_POINT (body_longitude body) (body_latitude body) in
      case geog location_text of
        None \<Rightarrow> (Inl (StoreError ''ST_GeographyFromText''), d)
      | Some g \<Rightarrow>
          (case body_name body of
             None \<Rightarrow> (Inl (StoreError ''23502''), d\<lparr>place_seq := place_seq d + 1\<rparr>)
           | Some n \<Rightarrow>
               (Inr ''Place created successfully'',
                d\<lparr>places := places d @
                     [\<lparr>place_id = place_seq d, name = n,
                       description = body_description body, location = g\<rparr>],
                  place_seq := place_seq d + 1\<rparr>)))"

text \<open>\<open>createPlace\<close> (controller): 201 with the service's message, 500 on any throw.\<close>

definition createPlace ::
  "(ewkt \<Rightarrow> geography option) \<Rightarrow> db \<Rightarrow> place_body \<Rightarrow> string response \<times> db" where
  "createPlace geog d body =
     (case createPlaceService geog d body of
        (Inr result, d') \<Rightarrow> ((201, json result), d')
      | (Inl err, d') \<Rightarrow> ((500, error_json ''Failed to create place''), d'))"

text \<open>
  The engine's geodesic computation on two geographies is the parameter \<open>geodesic\<close>, in
  metres. The queries call the engine twice with it: \<open>ST_DWithin(a, b, r)\<close> tests the
  computed distance against \<open>r\<close> as it is, while \<open>ST_Distance(a, b)\<close> answers it rounded to
  \<open>1e-8\<close> metres (half away from zero). \<open>ST_MakePoint(lng, lat)::geography\<close> builds the
  point.
\<close>

definition ST_MakePoint :: "real \<Rightarrow> real \<Rightarrow> geography" where
  "ST_MakePoint x y = \<lparr>point_lng = x, point_lat = y\<rparr>"

definition round_1e8 :: "real \<Rightarrow> real" where
  "round_1e8 x = sgn x * real_of_int \<lfloor>\<bar>x\<bar> * 10 ^ 8 + 1 / 2\<rfloor> / 10 ^ 8"

definition ST_Distance ::
  "(geography \<Rightarrow> geography \<Rightarrow> real) \<Rightarrow> geography \<Rightarrow> geography \<Rightarrow> real" where
  "ST_Distance geodesic a b = round_1e8 (geodesic a b)"

definition ST_DWithin ::
  "(geography \<Rightarrow> geography \<Rightarrow> real) \<Rightarrow> geography \<Rightarrow> geography \<Rightarrow> real \<Rightarrow> bool" where
  "ST_DWithin geodesic a b r = (geodesic a b \<le> r)"


section \<open>Nearby users\<close>

text \<open>
  \<open>getNearbyUsersService(latitude, longitude, radius = 10000, limit = 50)\<close>; \<open>None\<close> is an
  omitted argument. Each row carries the stored user and the \<open>distance\<close> column, which is
  \<open>ST_Distance\<close>; the \<open>WHERE\<close> clause is \<open>coordinates IS NOT NULL AND ST_DWithin(...)\<close>.
  \<open>ORDER BY distance ASC\<close> is a sort on that column, and \<open>LIMIT n\<close> keeps the first \<open>n\<close>
  rows; the engine raises on a negative \<open>n\<close>.
\<close>

definition nearby_rows ::
  "(geography \<Rightarrow> geography \<Rightarrow> real) \<Rightarrow> geography \<Rightarrow> real \<Rightarrow> user list \<Rightarrow> (user \<times> real) list" where
  "nearby_rows geodesic center radius us =
     concat (map (\<lambda>u. case coordinates u of
                         None \<Rightarrow> []
                       | Some c \<Rightarrow>
                           if ST_DWithin geodesic c center radius
                           then [(u, ST_Distance geodesic c center)] else [])
                 us)"

definition getNearbyUsersService ::
  "(geography \<Rightarrow> geography \<Rightarrow> real) \<Rightarrow> db \<Rightarrow> real \<Rightarrow> real \<Rightarrow> real option \<Rightarrow> int option
     \<Rightarrow> error + (user \<times> real) list" where
  "getNearbyUsersService geodesic d latitude longitude radius_arg limit_arg =
     (let radius = (case radius_arg of None \<Rightarrow> 10000 | Some r \<Rightarrow> r);
          limit = (case limit_arg of None \<Rightarrow> 50 | Some l \<Rightarrow> l);
          ordered = sort_key snd
                      (nearby_rows geodesic (ST_MakePoint longitude latitude) radius (users d))
      in if limit < 0 then Inl (StoreError ''LIMIT must not be negative'')
         else Inr (take (nat limit) ordered))"

text \<open>
  \<open>parseInt(string)\<close> without a radix: leading white space is skipped, a sign is read, a
  \<open>0x\<close> or \<open>0X\<close> prefix selects radix 16, and the longest prefix of digits is the value;
  \<open>None\<close> is \<open>NaN\<close>. The value is the exact integer (JavaScript rounds it to a double
  beyond \<open>2^53\<close>).
\<close>

definition is_white_space :: "char \<Rightarrow> bool" where
  "is_white_space c =
     (c = CHR '' '' \<or> c = CHR 0x09 \<or> c = CHR 0x0A \<or> c = CHR 0x0B \<or> c = CHR 0x0C \<or> c = CHR 0x0D)"

definition digit_value :: "char \<Rightarrow> nat option" where
  "digit_value c =
     (let n = (of_char c :: nat) in
      if 48 \<le> n \<and> n \<le> 57 then Some (n - 48)
      else if 97 \<le> n \<and> n \<le> 122 then Some (n - 87)
      else if 65 \<le> n \<and> n \<le> 90 then Some (n - 55)
      else None)"

definition is_digit :: "nat \<Rightarrow> char \<Rightarrow> bool" where
  "is_digit radix c = (case digit_value c of None \<Rightarrow> False | Some v \<Rightarrow> v < radix)"

definition digits_value :: "nat \<Rightarrow> string \<Rightarrow> nat" where
  "digits_value radix ds =
     foldl (\<lambda>acc c. case digit_value c of None \<Rightarrow> acc | Some v \<Rightarrow> acc * radix + v) 0 ds"

definition parseInt :: "string \<Rightarrow> int option" where
  "parseInt s =
     (let t = dropWhile is_white_space s;
          negative = (take 1 t = ''-'');
          t1 = (if take 1 t = ''-'' \<or> take 1 t = ''+'' then drop 1 t else t);
          hex = (take 2 t1 = ''0x'' \<or> take 2 t1 = ''0X'');
          radix = (if hex then 16 else 10);
          t2 = (if hex then drop 2 t1 else t1);
          ds = takeWhile (is_digit radix) t2
      in if ds = [] then None
         else Some ((if negative then - 1 else 1) * int (digits_value radix ds)))"

text \<open>
  \<open>getOptimizedAvatarUrl(avatarUrl, {width, height})\<close>: untouched unless the text is
  non-empty and mentions the image host; the rewriting of the path with the platform's URL
  parser (and the fall-back when it throws) is the parameter \<open>url_transform\<close>.
\<close>

fun str_includes :: "string \<Rightarrow> string \<Rightarrow> bool" where
  "str_includes [] sub = (sub = [])"
| "str_includes (c # cs) sub = (take (length sub) (c # cs) = sub \<or> str_includes cs sub)"

definition getOptimizedAvatarUrl ::
  "(nat \<Rightarrow> nat \<Rightarrow> string \<Rightarrow> string) \<Rightarrow> string \<Rightarrow> nat \<Rightarrow> nat \<Rightarrow> string" where
  "getOptimizedAvatarUrl url_transform url width height =
     (if url = [] then url
      else if \<not> str_includes url ''cloudinary.com'' then url
      else url_transform width height url)"

definition optimized_avatar ::
  "(nat \<Rightarrow> nat \<Rightarrow> string \<Rightarrow> string) \<Rightarrow> nat \<Rightarrow> nat \<Rightarrow> user \<Rightarrow> string option" where
  "optimized_avatar url_transform width height u =
     (case avatarUrl u of
        None \<Rightarrow> None
      | Some a \<Rightarrow> if a = [] then None else Some (getOptimizedAvatarUrl url_transform a width height))"

definition Math_round :: "real \<Rightarrow> int" where
  "Math_round x = \<lfloor>x + 1 / 2\<rfloor>"

text \<open>
  \<open>getNearbyUsers\<close> (controller). The query parameters are texts or absent; the defaults
  \<open>radius = 10000\<close> and \<open>limit = 50\<close> replace absent ones only. \<open>parseFloat\<close> is a
  parameter answering \<open>None\<close> for \<open>NaN\<close>. A \<open>NaN\<close> radius or limit is handed on to the
  store as it is; what the store then answers is the parameter \<open>nan_answer\<close>. The payload
  is the centre, the radius, the count and the users with their rounded distances.
\<close>

type_synonym nearby_payload = "(real \<times> real) \<times> real option \<times> nat \<times> (user \<times> int) list"

definition getNearbyUsers ::
  "(string \<Rightarrow> real option) \<Rightarrow> (nat \<Rightarrow> nat \<Rightarrow> string \<Rightarrow> string) \<Rightarrow> (error + (user \<times> real) list)
     \<Rightarrow> (geography \<Rightarrow> geography \<Rightarrow> real) \<Rightarrow> db
     \<Rightarrow> string option \<Rightarrow> string option \<Rightarrow> string option \<Rightarrow> string option
     \<Rightarrow> nearby_payload response" where
  "getNearbyUsers parseFloat url_transform nan_answer geodesic d lat lng radius limit =
     (case (lat, lng) of
        (Some lat_text, Some lng_text) \<Rightarrow>
          if lat_text = [] \<or> lng_text = []
          then (400, error_json ''Latitude and longitude are required'')
          else
            let latitude = parseFloat lat_text;
                longitude = parseFloat lng_text;
                searchRadius = (case radius of None \<Rightarrow> Some 10000 | Some r \<Rightarrow> parseFloat r);
                searchLimit = parseInt (case limit of None \<Rightarrow> ''50'' | Some l \<Rightarrow> l)
            in (case (latitude, longitude) of
                  (Some la, Some lo) \<Rightarrow>
                    (case (case (searchRadius, searchLimit) of
                             (Some r, Some l) \<Rightarrow>
                               getNearbyUsersService geodesic d la lo (Some r) (Some l)
                           | _ \<Rightarrow> nan_answer) of
                       Inr found \<Rightarrow>
                         (let optimizedUsers =
                                map (\<lambda>(u, distance).
                                      (u\<lparr>avatarUrl := optimized_avatar url_transform 100 100 u\<rparr>,
                                       Math_round distance)) found
                          in (200, json ((la, lo), searchRadius, length optimizedUsers,
                                         optimizedUsers)))
                     | Inl err \<Rightarrow> (500, error_json ''Failed to find nearby users''))
                | _ \<Rightarrow> (400, error_json ''Invalid latitude or longitude''))
      | _ \<Rightarrow> (400, error_json ''Latitude and longitude are required''))"

section \<open>Profile update\<close>

text \<open>
  The update data of a profile: a text field is \<open>None\<close> when absent (\<open>undefined\<close>),
  \<open>Some None\<close> for \<open>null\<close>.
\<close>

record profile_update =
  upd_fullName :: "string option option"
  upd_bio :: "string option option"
  upd_website :: "string option option"
  upd_instagram :: "string option option"
  upd_twitter :: "string option option"
  upd_facebook :: "string option option"
  upd_city :: "string option option"
  upd_country :: "string option option"
  upd_latitude :: jsval
  upd_longitude :: jsval
  upd_avatarUrl :: "string option option"

definition has_updateFields :: "profile_update \<Rightarrow> bool" where
  "has_updateFields upd =
     (upd_fullName upd \<noteq> None \<or> upd_bio upd \<noteq> None \<or> upd_website upd \<noteq> None \<or>
      upd_instagram upd \<noteq> None \<or> upd_twitter upd \<noteq> None \<or> upd_facebook upd \<noteq> None \<or>
      upd_city upd \<noteq> None \<or> upd_country upd \<noteq> None \<or> upd_avatarUrl upd \<noteq> None)"

definition set_field :: "'a option \<Rightarrow> 'a \<Rightarrow> 'a" where
  "set_field new old = (case new of None \<Rightarrow> old | Some v \<Rightarrow> v)"

definition apply_updateFields :: "profile_update \<Rightarrow> user \<Rightarrow> user" where
  "apply_updateFields upd u =
     u\<lparr>fullName := set_field (upd_fullName upd) (fullName u),
       bio := set_field (upd_bio upd) (bio u),
       website := set_field (upd_website upd) (website u),
       instagram := set_field (upd_instagram upd) (instagram u),
       twitter := set_field (upd_twitter upd) (twitter u),
       facebook := set_field (upd_facebook upd) (facebook u),
       city := set_field (upd_city upd) (city u),
       country := set_field (upd_country upd) (country u),
       avatarUrl := set_field (upd_avatarUrl upd) (avatarUrl u)\<rparr>"



section \<open>Sample data\<close>

text \<open>
  Concrete inputs on which the model is run: the three seeded places of \<open>seedTestPlaces\<close>,
  three users (the first without coordinates), and simple stand-ins for the parameters. The
  stand-in geodesic computation is a taxicab distance in degrees scaled to metres.
\<close>

definition city_square :: place where
  "city_square = \<lparr>place_id = 1, name = ''City Square'', description = Some ''A center point'',
     location = \<lparr>point_lng = 31.233334, point_lat = 30.033333\<rparr>\<rparr>"

definition library_park :: place where
  "library_park = \<lparr>place_id = 2, name = ''Library Park'',
     description = Some ''Quiet place with trees'',
     location = \<lparr>point_lng = 31.22, point_lat = 30.04\<rparr>\<rparr>"

definition food_plaza :: place where
  "food_plaza = \<lparr>place_id = 3, name = ''Food Plaza'',
     description = Some ''Famous for street food'',
     location = \<lparr>point_lng = 31.245, point_lat = 30.05\<rparr>\<rparr>"

definition sample_user :: "int \<Rightarrow> string \<Rightarrow> geography option \<Rightarrow> user" where
  "sample_user i n c =
     \<lparr>user_id = i, username = n, email = n @ ''@example.com'', password = ''hash:password123'',
      fullName = None, avatarUrl = None, bio = None, website = None, instagram = None,
      twitter = None, facebook = None, city = None, country = None,
      storyCount = 2, likeCount = 0, commentCount = 0,
      coordinates = c, createdAt = 0, updatedAt = 0\<rparr>"

definition alice :: user where
  "alice = sample_user 1 ''alice'' None"

definition bob :: user where
  "bob = sample_user 2 ''bob'' (Some \<lparr>point_lng = 31.22, point_lat = 30.04\<rparr>)"

definition carol :: user where
  "carol = sample_user 3 ''carol'' (Some \<lparr>point_lng = 31.245, point_lat = 30.05\<rparr>)"

definition sample_db :: db where
  "sample_db = \<lparr>places = [city_square, library_park, food_plaza], place_seq = 4,
                 users = [alice, bob, carol]\<rparr>"

definition sample_geodesic :: "geography \<Rightarrow> geography \<Rightarrow> real" where
  "sample_geodesic a b =
     111000 * (\<bar>point_lat a - point_lat b\<bar> + \<bar>point_lng a - point_lng b\<bar>)"

text \<open>
  The stand-in parser of point texts follows the engine on the texts used below. A
  coordinate is a number when the JSON value is a number, or a string holding a plain decimal
  literal (a sign, digits, a point, digits); \<open>null\<close>, \<open>undefined\<close>, \<open>true\<close> and any
  other text are rejected. A pair of numbers is never rejected for its range: when either
  lies outside \<open>[-180, 180]\<close> and \<open>[-90, 90]\<close>, both degrees are folded back into range,
  the latitude \<open>91\<close> becoming \<open>89\<close>.
\<close>

definition decimal_digit :: "char \<Rightarrow> bool" where
  "decimal_digit c = is_digit 10 c"

definition parse_decimal :: "string \<Rightarrow> real option" where
  "parse_decimal s =
     (let negative = (take 1 s = ''-'');
          t = (if take 1 s = ''-'' \<or> take 1 s = ''+'' then drop 1 s else s);
          whole = takeWhile decimal_digit t;
          rest = dropWhile decimal_digit t;
          frac = (if take 1 rest = ''.'' then drop 1 rest else rest)
      in if list_all decimal_digit frac \<and> (rest = [] \<or> take 1 rest = ''.'')
            \<and> (whole @ frac \<noteq> [])
         then Some ((if negative then - 1 else 1) *
                    (real (digits_value 10 whole)
                     + real (digits_value 10 frac) / 10 ^ length frac))
         else None)"

fun coordinate_number :: "jsval \<Rightarrow> real option" where
  "coordinate_number (JNum x) = Some x"
| "coordinate_number (JStr s) = parse_decimal s"
| "coordinate_number v = None"

definition ieee_remainder :: "real \<Rightarrow> real \<Rightarrow> real" where
  "ieee_remainder x y =
     (let q = x / y; f = \<lfloor>q\<rfloor>;
          n = (if q - real_of_int f < 1 / 2 then f
               else if 1 / 2 < q - real_of_int f then f + 1
               else if even f then f else f + 1)
      in x - real_of_int n * y)"

definition longitude_degrees_normalize :: "real \<Rightarrow> real" where
  "longitude_degrees_normalize lon0 =
     (let lon1 = (if 360 < lon0 then ieee_remainder lon0 360 else lon0);
          lon2 = (if lon1 < - 360 then ieee_remainder lon1 (- 360) else lon1);
          lon3 = (if 180 < lon2 then - 360 + lon2 else lon2);
          lon4 = (if lon3 < - 180 then 360 + lon3 else lon3)
      in if lon4 = - 180 then 180 else if lon4 = - 360 then 0 else lon4)"

definition latitude_degrees_normalize :: "real \<Rightarrow> real" where
  "latitude_degrees_normalize lat0 =
     (let lat1 = (if 360 < lat0 then ieee_remainder lat0 360 else lat0);
          lat2 = (if lat1 < - 360 then ieee_remainder lat1 (- 360) else lat1);
          lat3 = (if 180 < lat2 then 180 - lat2 else lat2);
          lat4 = (if lat3 < - 180 then - 180 - lat3 else lat3);
          lat5 = (if 90 < lat4 then 180 - lat4 else lat4)
      in if lat5 < - 90 then - 180 - lat5 else lat5)"

definition in_geography_range :: "real \<Rightarrow> real \<Rightarrow> bool" where
  "in_geography_range x y = (- 180 \<le> x \<and> x \<le> 180 \<and> - 90 \<le> y \<and> y \<le> 90)"

fun sample_geog :: "ewkt \<Rightarrow> geography option" where
  "sample_geog (SRID4326_POINT a b) =
     (case (coordinate_number a, coordinate_number b) of
        (Some x, Some y) \<Rightarrow>
          if in_geography_range x y then Some \<lparr>point_lng = x, point_lat = y\<rparr>
          else Some \<lparr>point_lng = longitude_degrees_normalize x,
                     point_lat = latitude_degrees_normalize y\<rparr>
      | _ \<Rightarrow> None)"

definition sample_parseFloat :: "string \<Rightarrow> real option" where
  "sample_parseFloat s = map_option real_of_int (parseInt s)"

definition sample_bcrypt_compare :: "string \<Rightarrow> string \<Rightarrow> bool" where
  "sample_bcrypt_compare pw hash = (hash = ''hash:'' @ pw)"

definition sample_jwt_sign :: "int \<Rightarrow> string \<Rightarrow> string" where
  "sample_jwt_sign i n = ''token:'' @ n"

definition no_transform :: "nat \<Rightarrow> nat \<Rightarrow> string \<Rightarrow> string" where
  "no_transform width height url = url"


text \<open>A store with 101 users, all located at latitude 0, longitude 0.\<close>

definition crowd_db :: db where
  "crowd_db = \<lparr>places = [], place_seq = 1,
     users = map (\<lambda>i. sample_user (int i) ''user'' (Some \<lparr>point_lng = 0, point_lat = 0\<rparr>))
                 [0..<101]\<rparr>"

section \<open>Engagement counters\<close>

lemma those_map_total:
  "(\<forall>x \<in> set xs. f x \<noteq> None) \<Longrightarrow>
   \<exists>ys. those (map f xs) = Some ys \<and> length ys = length xs
        \<and> (\<forall>i < length xs. f (xs ! i) = Some (ys ! i))"
proof (induction xs)
  case Nil
  then show ?case by simp
next
  case (Cons x xs)
  then obtain y ys where y: "f x = Some y" and ys: "those (map f xs) = Some ys"
    "length ys = length xs" "\<forall>i < length xs. f (xs ! i) = Some (ys ! i)"
    by auto
  have "\<forall>i < length (x # xs). f ((x # xs) ! i) = Some ((y # ys) ! i)"
    using y ys(3) by (auto simp: nth_Cons split: nat.splits)
  with y ys(1,2) show ?case by simp
qed

lemma those_map_none:
  "x \<in> set xs \<Longrightarrow> f x = None \<Longrightarrow> those (map f xs) = None"
  by (induction xs) (auto split: option.splits)

lemma those_map_some:
  "those (map f xs) = Some ys \<Longrightarrow>
   length ys = length xs \<and> (\<forall>i < length xs. f (xs ! i) = Some (ys ! i))"
proof (induction xs arbitrary: ys)
  case Nil
  then show ?case by simp
next
  case (Cons x xs)
  then obtain y zs where y: "f x = Some y" and zs: "those (map f xs) = Some zs" and
    ys: "ys = y # zs"
    by (auto split: option.splits)
  from Cons.IH [OF zs] y ys show ?case
    by (auto simp: nth_Cons split: nat.splits)
qed

lemma executeRaw_update_total:
  assumes "\<forall>u \<in> set (users d). f u \<noteq> None"
  shows "\<exists>d'. executeRaw_update f d = Inr d' \<and> length (users d') = length (users d)
            \<and> (\<forall>i < length (users d). f (users d ! i) = Some (users d' ! i))"
proof -
  from those_map_total [OF assms] obtain ys where
    "those (map f (users d)) = Some ys" "length ys = length (users d)"
    "\<forall>i < length (users d). f (users d ! i) = Some (ys ! i)"
    by blast
  then show ?thesis by (simp add: executeRaw_update_def)
qed

lemma executeRaw_update_raises:
  "u \<in> set (users d) \<Longrightarrow> f u = None \<Longrightarrow> executeRaw_update f d = Inl (StoreError ''22003'')"
  by (simp add: executeRaw_update_def those_map_none)

lemma executeRaw_update_counters:
  assumes "executeRaw_update f d = Inr d'" and "counters_nonneg d"
    and "\<And>u u'. f u = Some u' \<Longrightarrow> counters_ok u \<Longrightarrow> counters_ok u'"
  shows "counters_nonneg d'"
proof -
  from assms(1) obtain ys where ys: "those (map f (users d)) = Some ys" "users d' = ys"
    by (auto simp: executeRaw_update_def split: option.splits)
  from those_map_some [OF ys(1)] have len: "length ys = length (users d)"
    and nth: "\<forall>i < length (users d). f (users d ! i) = Some (ys ! i)"
    by simp_all
  have "counters_ok (ys ! i)" if "i < length ys" for i
  proof -
    from that len nth have "f (users d ! i) = Some (ys ! i)" by simp
    moreover from assms(2) that len have "counters_ok (users d ! i)"
      by (simp add: counters_nonneg_def list_all_length)
    ultimately show ?thesis by (rule assms(3))
  qed
  then show ?thesis by (simp add: counters_nonneg_def ys(2) list_all_length)
qed

lemma counter_after_clamps:
  "in_int4 (c + increment) \<Longrightarrow> counter_after wide_bind c increment = Some (max 0 (c + increment))"
  by (auto simp: counter_after_def in_int4_def int4_max_def)

lemma counter_after_overflow:
  "int4_max < c + increment \<Longrightarrow> counter_after wide_bind c increment = None"
  by (auto simp: counter_after_def in_int4_def int4_max_def)

lemma counter_after_nonneg:
  "counter_after wide_bind c increment = Some v \<Longrightarrow> 0 \<le> v"
  by (auto simp: counter_after_def split: if_splits)


lemma update_storyCount_row:
  "user_id u \<noteq> userId \<Longrightarrow> update_storyCount wide_bind now userId increment u = Some u"
  "user_id u = userId \<Longrightarrow> in_int4 (stat ''storyCount'' u + increment) \<Longrightarrow>
     \<exists>u'. update_storyCount wide_bind now userId increment u = Some u'
         \<and> stat ''storyCount'' u' = max 0 (stat ''storyCount'' u + increment)"
  "user_id u = userId \<Longrightarrow> int4_max < stat ''storyCount'' u + increment \<Longrightarrow>
     update_storyCount wide_bind now userId increment u = None"
  "update_storyCount wide_bind now userId increment u = Some u' \<Longrightarrow> counters_ok u \<Longrightarrow>
     counters_ok u'"
     apply (simp add: update_storyCount_def)
    apply (simp add: update_storyCount_def stat_def counter_after_clamps)
   apply (simp add: update_storyCount_def stat_def counter_after_overflow)
  apply (cases "user_id u = userId")
   apply (auto simp: update_storyCount_def counters_ok_def dest: counter_after_nonneg)
  done

lemma update_likeCount_row:
  "user_id u \<noteq> userId \<Longrightarrow> update_likeCount wide_bind now userId increment u = Some u"
  "user_id u = userId \<Longrightarrow> in_int4 (stat ''likeCount'' u + increment) \<Longrightarrow>
     \<exists>u'. update_likeCount wide_bind now userId increment u = Some u'
         \<and> stat ''likeCount'' u' = max 0 (stat ''likeCount'' u + increment)"
  "user_id u = userId \<Longrightarrow> int4_max < stat ''likeCount'' u + increment \<Longrightarrow>
     update_likeCount wide_bind now userId increment u = None"
  "update_likeCount wide_bind now userId increment u = Some u' \<Longrightarrow> counters_ok u \<Longrightarrow>
     counters_ok u'"
     apply (simp add: update_likeCount_def)
    apply (simp add: update_likeCount_def stat_def counter_after_clamps)
   apply (simp add: update_likeCount_def stat_def counter_after_overflow)
  apply (cases "user_id u = userId")
   apply (auto simp: update_likeCount_def counters_ok_def dest: counter_after_nonneg)
  done

lemma update_commentCount_row:
  "user_id u \<noteq> userId \<Longrightarrow> update_commentCount wide_bind now userId increment u = Some u"
  "user_id u = userId \<Longrightarrow> in_int4 (stat ''commentCount'' u + increment) \<Longrightarrow>
     \<exists>u'. update_commentCount wide_bind now userId increment u = Some u'
         \<and> stat ''commentCount'' u' = max 0 (stat ''commentCount'' u + increment)"
  "user_id u = userId \<Longrightarrow> int4_max < stat ''commentCount'' u + increment \<Longrightarrow>
     update_commentCount wide_bind now userId increment u = None"
  "update_commentCount wide_bind now userId increment u = Some u' \<Longrightarrow> counters_ok u \<Longrightarrow>
     counters_ok u'"
     apply (simp add: update_commentCount_def)
    apply (simp add: update_commentCount_def stat_def counter_after_clamps)
   apply (simp add: update_commentCount_def stat_def counter_after_overflow)
  apply (cases "user_id u = userId")
   apply (auto simp: update_commentCount_def counters_ok_def dest: counter_after_nonneg)
  done

text \<open>
  Each valid stat type selects one statement; what the service does once the parameters are
  bound is decided by that statement alone.
\<close>

lemma stats_statement:
  assumes "statType \<in> set validStats"
  obtains f where
    "\<And>d. wide_bind \<or> in_int4 increment \<and> in_int4 userId \<Longrightarrow>
       updateUserStatsService wide_bind now d userId statType (Some increment) =
         (case executeRaw_update f d of
            Inl err \<Rightarrow> (Inl err, d)
          | Inr d' \<Rightarrow> (Inr (getUserProfileService d' userId), d'))"
    and "\<And>u. user_id u \<noteq> userId \<Longrightarrow> f u = Some u"
    and "\<And>u. user_id u = userId \<Longrightarrow> in_int4 (stat statType u + increment) \<Longrightarrow>
           \<exists>u'. f u = Some u' \<and> stat statType u' = max 0 (stat statType u + increment)"
    and "\<And>u. user_id u = userId \<Longrightarrow> int4_max < stat statType u + increment \<Longrightarrow> f u = None"
    and "\<And>u u'. f u = Some u' \<Longrightarrow> counters_ok u \<Longrightarrow> counters_ok u'"
proof -
  from assms consider "statType = ''storyCount''" | "statType = ''likeCount''"
    | "statType = ''commentCount''"
    by (auto simp: validStats_def)
  then show ?thesis
  proof cases
    case 1
    show ?thesis
    proof (rule that [of "update_storyCount wide_bind now userId increment"])
      show "updateUserStatsService wide_bind now d userId statType (Some increment) =
         (case executeRaw_update (update_storyCount wide_bind now userId increment) d of
            Inl err \<Rightarrow> (Inl err, d)
          | Inr d' \<Rightarrow> (Inr (getUserProfileService d' userId), d'))"
        if "wide_bind \<or> in_int4 increment \<and> in_int4 userId" for d
        using that 1 by (auto simp: updateUserStatsService_def validStats_def)
    qed (auto simp: 1 update_storyCount_row(1-3) elim: update_storyCount_row(4))
  next
    case 2
    show ?thesis
    proof (rule that [of "update_likeCount wide_bind now userId increment"])
      show "updateUserStatsService wide_bind now d userId statType (Some increment) =
         (case executeRaw_update (update_likeCount wide_bind now userId increment) d of
            Inl err \<Rightarrow> (Inl err, d)
          | Inr d' \<Rightarrow> (Inr (getUserProfileService d' userId), d'))"
        if "wide_bind \<or> in_int4 increment \<and> in_int4 userId" for d
        using that 2 by (auto simp: updateUserStatsService_def validStats_def)
    qed (auto simp: 2 update_likeCount_row(1-3) elim: update_likeCount_row(4))
  next
    case 3
    show ?thesis
    proof (rule that [of "update_commentCount wide_bind now userId increment"])
      show "updateUserStatsService wide_bind now d userId statType (Some increment) =
         (case executeRaw_update (update_commentCount wide_bind now userId increment) d of
            Inl err \<Rightarrow> (Inl err, d)
          | Inr d' \<Rightarrow> (Inr (getUserProfileService d' userId), d'))"
        if "wide_bind \<or> in_int4 increment \<and> in_int4 userId" for d
        using that 3 by (auto simp: updateUserStatsService_def validStats_def)
    qed (auto simp: 3 update_commentCount_row(1-3) elim: update_commentCount_row(4))
  qed
qed


lemma counters_nonneg_step:
  assumes "counters_nonneg d"
  shows "counters_nonneg (snd (updateUserStatsService wide_bind now d userId statType inc))"
proof (cases "statType \<in> set validStats")
  case False
  with assms show ?thesis by (simp add: updateUserStatsService_def)
next
  case True
  define increment where "increment = (case inc of None \<Rightarrow> 1 | Some i \<Rightarrow> i)"
  have same: "updateUserStatsService wide_bind now d userId statType inc
                = updateUserStatsService wide_bind now d userId statType (Some increment)"
    by (simp add: updateUserStatsService_def increment_def)
  show ?thesis
  proof (cases "wide_bind \<or> in_int4 increment \<and> in_int4 userId")
    case False
    with True assms show ?thesis unfolding same
      by (auto simp: updateUserStatsService_def)
  next
    case bound: True
    from True obtain f where
      run: "\<And>d. wide_bind \<or> in_int4 increment \<and> in_int4 userId \<Longrightarrow>
         updateUserStatsService wide_bind now d userId statType (Some increment) =
           (case executeRaw_update f d of
              Inl err \<Rightarrow> (Inl err, d)
            | Inr d' \<Rightarrow> (Inr (getUserProfileService d' userId), d'))"
      and other: "\<And>u. user_id u \<noteq> userId \<Longrightarrow> f u = Some u"
      and clamp: "\<And>u. user_id u = userId \<Longrightarrow> in_int4 (stat statType u + increment) \<Longrightarrow>
             \<exists>u'. f u = Some u' \<and> stat statType u' = max 0 (stat statType u + increment)"
      and none: "\<And>u. user_id u = userId \<Longrightarrow> int4_max < stat statType u + increment \<Longrightarrow> f u = None"
      and ok: "\<And>u u'. f u = Some u' \<Longrightarrow> counters_ok u \<Longrightarrow> counters_ok u'"
      by (rule stats_statement
        [where wide_bind = wide_bind and increment = increment and userId = userId and now = now])
      blast
    note run = run [OF bound]
    show ?thesis
    proof (cases "executeRaw_update f d")
      case (Inl err)
      with assms show ?thesis unfolding same run by simp
    next
      case (Inr d')
      from executeRaw_update_counters [OF Inr assms ok] show ?thesis
        unfolding same run Inr by simp
    qed
  qed
qed

lemma counters_nonneg_run:
  "counters_nonneg d \<Longrightarrow> counters_nonneg (stat_updates wide_bind now d ops)"
proof (induction ops arbitrary: d)
  case Nil
  then show ?case by simp
next
  case (Cons op ops)
  obtain userId statType inc where op: "op = (userId, statType, inc)"
    by (cases op) auto
  from Cons.prems
  have "counters_nonneg (snd (updateUserStatsService wide_bind now d userId statType inc))"
    by (rule counters_nonneg_step)
  then show ?case unfolding op by (simp add: Cons.IH)
qed

lemma stats_within_range:
  assumes "statType \<in> set validStats" and "in_int4 increment" and "in_int4 userId"
    and "\<forall>u \<in> set (users d). user_id u = userId \<longrightarrow> in_int4 (stat statType u + increment)"
  shows "\<exists>d'. updateUserStatsService wide_bind now d userId statType (Some increment)
                 = (Inr (getUserProfileService d' userId), d')
            \<and> length (users d') = length (users d)
            \<and> (\<forall>i < length (users d). user_id (users d ! i) = userId \<longrightarrow>
                  stat statType (users d' ! i) = max 0 (stat statType (users d ! i) + increment))"
proof -
  from assms(1) obtain f where
    run: "\<And>d. wide_bind \<or> in_int4 increment \<and> in_int4 userId \<Longrightarrow>
       updateUserStatsService wide_bind now d userId statType (Some increment) =
         (case executeRaw_update f d of
            Inl err \<Rightarrow> (Inl err, d)
          | Inr d' \<Rightarrow> (Inr (getUserProfileService d' userId), d'))"
    and other: "\<And>u. user_id u \<noteq> userId \<Longrightarrow> f u = Some u"
    and clamp: "\<And>u. user_id u = userId \<Longrightarrow> in_int4 (stat statType u + increment) \<Longrightarrow>
           \<exists>u'. f u = Some u' \<and> stat statType u' = max 0 (stat statType u + increment)"
    and none: "\<And>u. user_id u = userId \<Longrightarrow> int4_max < stat statType u + increment \<Longrightarrow> f u = None"
    and ok: "\<And>u u'. f u = Some u' \<Longrightarrow> counters_ok u \<Longrightarrow> counters_ok u'"
    by (rule stats_statement
        [where wide_bind = wide_bind and increment = increment and userId = userId and now = now])
      blast
  from assms(2,3) have run:
    "updateUserStatsService wide_bind now d userId statType (Some increment) =
         (case executeRaw_update f d of
            Inl err \<Rightarrow> (Inl err, d)
          | Inr d' \<Rightarrow> (Inr (getUserProfileService d' userId), d'))"
    by (simp add: run)
  have "f u \<noteq> None" if "u \<in> set (users d)" for u
  proof (cases "user_id u = userId")
    case True
    with assms(4) that clamp [of u] show ?thesis by auto
  next
    case False
    then show ?thesis by (simp add: other)
  qed
  then obtain d' where d': "executeRaw_update f d = Inr d'"
    "length (users d') = length (users d)"
    "\<forall>i < length (users d). f (users d ! i) = Some (users d' ! i)"
    using executeRaw_update_total [of d f] by blast
  have "stat statType (users d' ! i) = max 0 (stat statType (users d ! i) + increment)"
    if "i < length (users d)" and "user_id (users d ! i) = userId" for i
  proof -
    from that(1) have "users d ! i \<in> set (users d)" by simp
    with assms(4) that(2) have "in_int4 (stat statType (users d ! i) + increment)" by blast
    from clamp [OF that(2) this] d'(3) that(1) show ?thesis by auto
  qed
  with d'(1,2) show ?thesis unfolding run by auto
qed

lemma stats_overflow:
  assumes "statType \<in> set validStats" and "u \<in> set (users d)" and "user_id u = userId"
    and "int4_max < stat statType u + increment"
  shows "\<exists>err. updateUserStatsService wide_bind now d userId statType (Some increment)
                  = (Inl err, d)"
proof (cases "wide_bind \<or> in_int4 increment \<and> in_int4 userId")
  case False
  with assms(1) show ?thesis by (auto simp: updateUserStatsService_def)
next
  case True
  from assms(1) obtain f where
    run: "\<And>d. wide_bind \<or> in_int4 increment \<and> in_int4 userId \<Longrightarrow>
       updateUserStatsService wide_bind now d userId statType (Some increment) =
         (case executeRaw_update f d of
            Inl err \<Rightarrow> (Inl err, d)
          | Inr d' \<Rightarrow> (Inr (getUserProfileService d' userId), d'))"
    and other: "\<And>u. user_id u \<noteq> userId \<Longrightarrow> f u = Some u"
    and clamp: "\<And>u. user_id u = userId \<Longrightarrow> in_int4 (stat statType u + increment) \<Longrightarrow>
           \<exists>u'. f u = Some u' \<and> stat statType u' = max 0 (stat statType u + increment)"
    and none: "\<And>u. user_id u = userId \<Longrightarrow> int4_max < stat statType u + increment \<Longrightarrow> f u = None"
    and ok: "\<And>u u'. f u = Some u' \<Longrightarrow> counters_ok u \<Longrightarrow> counters_ok u'"
    by (rule stats_statement
        [where wide_bind = wide_bind and increment = increment and userId = userId and now = now])
      blast
  note run = run [OF True]
  from none [OF assms(3,4)] assms(2) have "executeRaw_update f d = Inl (StoreError ''22003'')"
    by (simp add: executeRaw_update_raises)
  then show ?thesis unfolding run by simp
qed

text \<open>
  C9 (amended). For a valid stat type and an increment (possibly negative) such that the
  increment, the id and, on every row with that id, the old value plus the increment lie in
  the 32-bit range of the counter's column, \<open>updateUserStatsService\<close> succeeds and leaves
  the affected counter of every such row at \<open>max 0 (old + increment)\<close>. When the old value
  plus the increment exceeds \<open>2147483647\<close> on such a row, the service raises and the store is
  unchanged. When no counter of the store is negative, none is negative after any sequence
  of stat updates. All of this holds in whichever width the client binds the increment.
\<close>

theorem updateUserStatsService_clamps_within_range:
  assumes "statType \<in> set validStats"
  shows "(in_int4 increment \<and> in_int4 userId
          \<and> (\<forall>u \<in> set (users d). user_id u = userId \<longrightarrow>
                in_int4 (stat statType u + increment)) \<longrightarrow>
            (\<exists>d'. updateUserStatsService wide_bind now d userId statType (Some increment)
                     = (Inr (getUserProfileService d' userId), d')
                \<and> length (users d') = length (users d)
                \<and> (\<forall>i < length (users d). user_id (users d ! i) = userId \<longrightarrow>
                      stat statType (users d' ! i)
                        = max 0 (stat statType (users d ! i) + increment))))
       \<and> ((\<exists>u \<in> set (users d). user_id u = userId
                \<and> int4_max < stat statType u + increment) \<longrightarrow>
            (\<exists>err. updateUserStatsService wide_bind now d userId statType (Some increment)
                      = (Inl err, d)))
       \<and> (counters_nonneg d \<longrightarrow> counters_nonneg (stat_updates wide_bind now d ops))"
proof (intro conjI impI)
  assume "in_int4 increment \<and> in_int4 userId
          \<and> (\<forall>u \<in> set (users d). user_id u = userId \<longrightarrow>
                in_int4 (stat statType u + increment))"
  then show "\<exists>d'. updateUserStatsService wide_bind now d userId statType (Some increment)
                     = (Inr (getUserProfileService d' userId), d')
                \<and> length (users d') = length (users d)
                \<and> (\<forall>i < length (users d). user_id (users d ! i) = userId \<longrightarrow>
                      stat statType (users d' ! i)
                        = max 0 (stat statType (users d ! i) + increment))"
    using stats_within_range [OF assms] by blast
next
  assume "\<exists>u \<in> set (users d). user_id u = userId \<and> int4_max < stat statType u + increment"
  then show "\<exists>err. updateUserStatsService wide_bind now d userId statType (Some increment)
                      = (Inl err, d)"
    using stats_overflow [OF assms] by blast
next
  assume "counters_nonneg d"
  then show "counters_nonneg (stat_updates wide_bind now d ops)"
    by (rule counters_nonneg_run)
qed


lemma sample_counters:
  "counters_ok alice" "counters_ok bob" "counters_ok carol"
  "user_id alice = 1" "user_id bob = 2" "user_id carol = 3"
  "storyCount alice = 2" "stat ''storyCount'' alice = 2"
  by (simp_all add: counters_ok_def alice_def bob_def carol_def sample_user_def stat_def)

text \<open>
  C9 as stated fails: with \<open>storyCount = 2\<close> stored for user 1, the increment
  \<open>2147483647\<close> makes the update raise \<open>integer out of range\<close> and the counter stays 2,
  in whichever width the increment is bound.
\<close>

theorem stat_update_overflow_raises:
  "user_id (users sample_db ! 0) = 1 \<and> storyCount (users sample_db ! 0) = 2
   \<and> updateUserStatsService True 7 sample_db 1 ''storyCount'' (Some 2147483647)
       = (Inl (StoreError ''22003''), sample_db)
   \<and> updateUserStatsService False 7 sample_db 1 ''storyCount'' (Some 2147483647)
       = (Inl (StoreError ''22003''), sample_db)"
proof -
  have row: "update_storyCount wide_bind 7 1 2147483647 alice = None" for wide_bind
    by (simp add: update_storyCount_def sample_counters counter_after_def in_int4_def
        int4_max_def int4_min_def)
  have "executeRaw_update (update_storyCount wide_bind 7 1 2147483647) sample_db
          = Inl (StoreError ''22003'')" for wide_bind
    by (rule executeRaw_update_raises [of alice]) (simp_all add: sample_db_def row)
  then show ?thesis
    by (simp add: updateUserStatsService_def validStats_def in_int4_def int4_max_def
        int4_min_def sample_db_def sample_counters)
qed

text \<open>The amended C9 at the sample store: a decrement below zero, an overflow, a sequence.\<close>

theorem updateUserStatsService_clamps_within_range_witness:
  "''storyCount'' \<in> set validStats \<and> counters_nonneg sample_db
   \<and> in_int4 (- 5) \<and> in_int4 1
   \<and> user_id (users sample_db ! 0) = 1 \<and> stat ''storyCount'' (users sample_db ! 0) = 2
   \<and> stat ''storyCount''
       (users (snd (updateUserStatsService False 7 sample_db 1 ''storyCount'' (Some (- 5)))) ! 0)
       = 0
   \<and> alice \<in> set (users sample_db) \<and> int4_max < stat ''storyCount'' alice + 2147483647
   \<and> snd (updateUserStatsService True 7 sample_db 1 ''storyCount'' (Some 2147483647))
       = sample_db
   \<and> counters_nonneg
       (stat_updates False 7 sample_db
          [(1, ''storyCount'', Some (- 5)), (1, ''likeCount'', None)])"
proof -
  have v: "''storyCount'' \<in> set validStats"
    by (simp add: validStats_def)
  have n: "counters_nonneg sample_db"
    by (simp add: counters_nonneg_def sample_db_def sample_counters)
  have r: "in_int4 (- 5)" "in_int4 1"
    by (simp_all add: in_int4_def int4_min_def int4_max_def)
  have u: "user_id (users sample_db ! 0) = 1" "stat ''storyCount'' (users sample_db ! 0) = 2"
    "0 < length (users sample_db)" "alice \<in> set (users sample_db)"
    by (simp_all add: sample_db_def sample_counters)
  have fits: "\<forall>u \<in> set (users sample_db). user_id u = 1 \<longrightarrow>
                in_int4 (stat ''storyCount'' u + (- 5))"
    by (simp add: sample_db_def sample_counters in_int4_def int4_min_def int4_max_def)
  have over: "int4_max < stat ''storyCount'' alice + 2147483647"
    by (simp add: sample_counters int4_max_def)
  note down = updateUserStatsService_clamps_within_range [OF v, of "- 5" 1 sample_db False 7
      "[(1, ''storyCount'', Some (- 5)), (1, ''likeCount'', None)]"]
  note up = updateUserStatsService_clamps_within_range [OF v, of 2147483647 1 sample_db True 7 "[]"]
  from down r fits obtain d' where d':
    "updateUserStatsService False 7 sample_db 1 ''storyCount'' (Some (- 5))
       = (Inr (getUserProfileService d' 1), d')"
    "\<forall>i < length (users sample_db). user_id (users sample_db ! i) = 1 \<longrightarrow>
        stat ''storyCount'' (users d' ! i)
          = max 0 (stat ''storyCount'' (users sample_db ! i) + (- 5))"
    by blast
  from d'(2) u have "stat ''storyCount'' (users d' ! 0) = 0"
    by simp
  with d'(1) have clamped: "stat ''storyCount''
       (users (snd (updateUserStatsService False 7 sample_db 1 ''storyCount'' (Some (- 5)))) ! 0)
       = 0"
    by simp
  from up u(4) over sample_counters(4) obtain err where
    "updateUserStatsService True 7 sample_db 1 ''storyCount'' (Some 2147483647)
       = (Inl err, sample_db)"
    by blast
  then have raised: "snd (updateUserStatsService True 7 sample_db 1 ''storyCount''
                           (Some 2147483647)) = sample_db"
    by simp
  from down n have run: "counters_nonneg
       (stat_updates False 7 sample_db
          [(1, ''storyCount'', Some (- 5)), (1, ''likeCount'', None)])"
    by blast
  from v n r u(1,2) clamped u(4) over raised run show ?thesis
    by (intro conjI)
qed

section \<open>Login\<close>

lemma sample_accounts:
  "email alice = ''alice@example.com''" "username alice = ''alice''"
  "email bob = ''bob@example.com''" "username bob = ''bob''"
  "email carol = ''carol@example.com''" "username carol = ''carol''"
  "password bob = ''hash:password123''" "user_id bob = 2"
  by (simp_all add: alice_def bob_def carol_def sample_user_def)

text \<open>
  With passwords that are strings, the two failures of a login are answered alike: no user
  with the given email or username, and a password that does not match the stored hash,
  both raise \<open>Invalid credentials\<close> and are answered 401 with one body.
\<close>

lemma login_string_failures_alike:
  assumes "e1 \<noteq> []" and "p1 \<noteq> []" and "e2 \<noteq> []" and "p2 \<noteq> []"
    and "find (\<lambda>u. email u = e1 \<or> username u = e1) (users d1) = None"
    and "find (\<lambda>u. email u = e2 \<or> username u = e2) (users d2) = Some u"
    and "\<not> bcrypt_compare p2 (password u)"
  shows "loginUserService bcrypt_compare jwt_sign d1 (JStr e1) (JStr p1)
           = Inl (Error ''Invalid credentials'')
       \<and> loginUserService bcrypt_compare jwt_sign d2 (JStr e2) (JStr p2)
           = Inl (Error ''Invalid credentials'')
       \<and> loginUser bcrypt_compare jwt_sign d1 (JStr e1) (JStr p1)
           = (401, error_json ''Invalid email/username or password'')
       \<and> loginUser bcrypt_compare jwt_sign d2 (JStr e2) (JStr p2)
           = (401, error_json ''Invalid email/username or password'')"
  using assms by (simp add: loginUserService_def loginUser_def)

text \<open>
  A password that is a non-zero number passes the presence test of the controller. For a
  missing account the lookup fails first and the answer is 401; for an existing account the
  hash comparison rejects the number and the answer is 500.
\<close>

lemma login_number_password:
  assumes "e \<noteq> []" and "x \<noteq> 0"
  shows "loginUser bcrypt_compare jwt_sign d (JStr e) (JNum x) =
           (case find (\<lambda>u. email u = e \<or> username u = e) (users d) of
              None \<Rightarrow> (401, error_json ''Invalid email/username or password'')
            | Some u \<Rightarrow> (500, error_json ''Login failed''))"
  using assms by (simp add: loginUserService_def loginUser_def split: option.splits)

text \<open>
  C10 at a failing input. \<open>POST /users/login\<close> with the password \<open>123456\<close> sent as a JSON
  number is answered 500 \<open>Login failed\<close> for the existing account \<open>bob\<close> and 401 for the
  missing account \<open>dave\<close>: the two answers tell whether the account exists.
\<close>

theorem login_number_password_reveals_account:
  "loginUser sample_bcrypt_compare sample_jwt_sign sample_db (JStr ''bob'') (JNum 123456)
     = (500, error_json ''Login failed'')
   \<and> loginUser sample_bcrypt_compare sample_jwt_sign sample_db (JStr ''dave'') (JNum 123456)
     = (401, error_json ''Invalid email/username or password'')"
  by (simp add: login_number_password sample_db_def sample_accounts)

section \<open>Nearby search\<close>

lemma round_1e8_zero: "round_1e8 0 = 0"
  by (simp add: round_1e8_def)


lemma round_1e8_grid:
  "0 \<le> n \<Longrightarrow> round_1e8 (real_of_int n / 10 ^ 8) = real_of_int n / 10 ^ 8"
proof -
  assume n: "0 \<le> n"
  have "\<lfloor>real_of_int n + 1 / 2\<rfloor> = n"
    by linarith
  then show ?thesis
    using n by (cases "n = 0") (simp_all add: round_1e8_def)
qed


lemma set_user_rows:
  "(v, dd) \<in> set (case coordinates u of
                      None \<Rightarrow> []
                    | Some c \<Rightarrow> if ST_DWithin geodesic c center radius
                               then [(u, ST_Distance geodesic c center)] else []) \<longleftrightarrow>
     v = u \<and> (\<exists>c. coordinates u = Some c \<and> geodesic c center \<le> radius
                    \<and> dd = ST_Distance geodesic c center)"
  by (cases "coordinates u") (auto simp: ST_DWithin_def)

lemma set_nearby_rows:
  "(u, dd) \<in> set (nearby_rows geodesic center radius us) \<longleftrightarrow>
     u \<in> set us \<and> (\<exists>c. coordinates u = Some c \<and> geodesic c center \<le> radius
                        \<and> dd = ST_Distance geodesic c center)"
  unfolding nearby_rows_def set_concat set_map UN_iff bex_simps image_iff set_user_rows
  by blast

lemma getNearbyUsersService_rows:
  "getNearbyUsersService geodesic d latitude longitude radius_arg limit_arg = Inr rows \<longleftrightarrow>
     0 \<le> (case limit_arg of None \<Rightarrow> 50 | Some l \<Rightarrow> l) \<and>
     rows = take (nat (case limit_arg of None \<Rightarrow> 50 | Some l \<Rightarrow> l))
              (sort_key snd (nearby_rows geodesic (ST_MakePoint longitude latitude)
                 (case radius_arg of None \<Rightarrow> 10000 | Some r \<Rightarrow> r) (users d)))"
  by (auto simp: getNearbyUsersService_def Let_def)







lemma sample_coordinates:
  "coordinates alice = None"
  "coordinates bob = Some \<lparr>point_lng = 31.22, point_lat = 30.04\<rparr>"
  "coordinates carol = Some \<lparr>point_lng = 31.245, point_lat = 30.05\<rparr>"
  by (simp_all add: alice_def bob_def carol_def sample_user_def)


lemma sample_users_nearby:
  "getNearbyUsersService sample_geodesic sample_db 30.05 31.245 (Some 5000) (Some 1)
     = Inr [(carol, 0)]"
  "getNearbyUsersService sample_geodesic sample_db 30.05 31.245 (Some 5000) (Some 50)
     = Inr [(carol, 0), (bob, 3885)]"
  "getNearbyUsersService sample_geodesic sample_db 30.05 31.245 (Some 0) (Some 50)
     = Inr [(carol, 0)]"
  "getNearbyUsersService sample_geodesic sample_db 30.05 31.245 (Some 0) (Some 0)
     = Inr []"
  by (simp_all add: getNearbyUsersService_def nearby_rows_def sample_db_def sample_coordinates
      ST_DWithin_def ST_Distance_def round_1e8_def ST_MakePoint_def sample_geodesic_def)











text \<open>
  C7. A stored user without coordinates never appears in the result of a nearby search,
  whatever the centre, radius and limit: no result row is that user, and, ids being unique,
  no result row carries its id. (A place row always has a location: the column is
  \<open>NOT NULL\<close>.)
\<close>

theorem no_coordinates_never_nearby:
  assumes "getNearbyUsersService geodesic d latitude longitude radius limit = Inr rows"
    and "u \<in> set (users d)" and "coordinates u = None"
  shows "u \<notin> fst ` set rows
       \<and> (distinct (map user_id (users d)) \<longrightarrow> user_id u \<notin> (user_id \<circ> fst) ` set rows)"
proof -
  have stored: "v \<in> set (users d) \<and> coordinates v \<noteq> None" if "(v, dd) \<in> set rows" for v dd
  proof -
    from assms(1) that
    have "(v, dd) \<in> set (nearby_rows geodesic (ST_MakePoint longitude latitude)
                           (case radius of None \<Rightarrow> 10000 | Some r \<Rightarrow> r) (users d))"
      by (auto simp: getNearbyUsersService_rows dest: in_set_takeD)
    then show ?thesis by (auto simp: set_nearby_rows)
  qed
  have "u \<notin> fst ` set rows"
    using stored assms(3) by force
  moreover have "user_id u \<notin> (user_id \<circ> fst) ` set rows"
    if dist: "distinct (map user_id (users d))"
  proof
    assume "user_id u \<in> (user_id \<circ> fst) ` set rows"
    then obtain v dd where vd: "(v, dd) \<in> set rows" and id: "user_id v = user_id u"
      by auto
    from stored [OF vd] have v: "v \<in> set (users d)" "coordinates v \<noteq> None"
      by simp_all
    from dist v(1) assms(2) id have "v = u"
      by (meson distinct_map inj_onD)
    with v(2) assms(3) show False by simp
  qed
  ultimately show ?thesis by simp
qed

text \<open>C7 at the sample store, where the first user has no coordinates.\<close>

theorem no_coordinates_never_nearby_witness:
  "getNearbyUsersService sample_geodesic sample_db 30.05 31.245 (Some 5000) (Some 50)
     = Inr [(carol, 0), (bob, 3885)]
   \<and> alice \<in> set (users sample_db) \<and> coordinates alice = None
   \<and> distinct (map user_id (users sample_db))
   \<and> alice \<notin> fst ` set [(carol, 0::real), (bob, 3885)]
   \<and> user_id alice \<notin> (user_id \<circ> fst) ` set [(carol, 0::real), (bob, 3885)]"
proof -
  have a: "alice \<in> set (users sample_db)" by (simp add: sample_db_def)
  have d: "distinct (map user_id (users sample_db))"
    by (simp add: sample_db_def alice_def bob_def carol_def sample_user_def)
  from no_coordinates_never_nearby [OF sample_users_nearby(2) a sample_coordinates(1)] d
    sample_users_nearby(2) a sample_coordinates(1)
  show ?thesis by blast
qed

section \<open>Removal\<close>

lemma delete_one_row:
  "distinct (map user_id us) \<Longrightarrow> userId \<in> user_id ` set us \<Longrightarrow>
   Suc (length (filter (\<lambda>u. user_id u \<noteq> userId) us)) = length us"
proof (induction us)
  case Nil
  then show ?case by simp
next
  case (Cons v us)
  show ?case
  proof (cases "user_id v = userId")
    case True
    with Cons.prems(1) have "userId \<notin> user_id ` set us" by auto
    then have "filter (\<lambda>u. user_id u \<noteq> userId) us = us"
      by (auto simp: filter_id_conv)
    with True show ?thesis by simp
  next
    case False
    with Cons show ?thesis by auto
  qed
qed

text \<open>
  C8 (amended). Removing a user whose id is not in the store raises the client's
  record-not-found error and leaves the store unchanged, and the controller answers 500;
  removing an existing id succeeds, removes the rows with that id and no other, leaves the
  places alone, and, ids being unique, removes exactly one row.
\<close>

theorem deleteUserService_removes_or_raises:
  "(userId \<notin> user_id ` set (users d) \<longrightarrow>
       deleteUserService d userId = (Inl (StoreError ''P2025''), d)
     \<and> deleteUser d userId = ((500, error_json ''Failed to delete user account''), d))
   \<and> (userId \<in> user_id ` set (users d) \<longrightarrow>
       fst (deleteUserService d userId) = Inr True
     \<and> fst (deleteUser d userId) = (200, json ''User account deleted successfully'')
     \<and> users (snd (deleteUserService d userId)) = filter (\<lambda>u. user_id u \<noteq> userId) (users d)
     \<and> places (snd (deleteUserService d userId)) = places d
     \<and> (distinct (map user_id (users d)) \<longrightarrow>
          length (users (snd (deleteUserService d userId))) + 1 = length (users d)))"
proof -
  have ex: "list_ex (\<lambda>u. user_id u = userId) (users d) \<longleftrightarrow> userId \<in> user_id ` set (users d)"
    by (auto simp: list_ex_iff)
  show ?thesis
    by (simp add: deleteUserService_def deleteUser_def ex delete_one_row)
qed

text \<open>
  C8 as stated fails: removing id 99 from the sample store, which has no such user, is an
  error.
\<close>

theorem delete_missing_user_raises:
  "deleteUserService sample_db 99 = (Inl (StoreError ''P2025''), sample_db)
   \<and> fst (deleteUser sample_db 99) = (500, error_json ''Failed to delete user account'')"
  by (simp add: deleteUserService_def deleteUser_def sample_db_def alice_def bob_def carol_def
      sample_user_def)

text \<open>The amended C8 at the sample store, for the missing id 99 and the existing id 2.\<close>

theorem deleteUserService_removes_or_raises_witness:
  "99 \<notin> user_id ` set (users sample_db) \<and> 2 \<in> user_id ` set (users sample_db)
   \<and> distinct (map user_id (users sample_db))
   \<and> deleteUserService sample_db 99 = (Inl (StoreError ''P2025''), sample_db)
   \<and> fst (deleteUserService sample_db 2) = Inr True
   \<and> users (snd (deleteUserService sample_db 2)) = [alice, carol]
   \<and> length (users (snd (deleteUserService sample_db 2))) + 1 = length (users sample_db)"
proof -
  have ids: "user_id alice = 1" "user_id bob = 2" "user_id carol = 3"
    by (simp_all add: alice_def bob_def carol_def sample_user_def)
  have a: "99 \<notin> user_id ` set (users sample_db)" "2 \<in> user_id ` set (users sample_db)"
    "distinct (map user_id (users sample_db))"
    by (simp_all add: sample_db_def ids)
  have f: "filter (\<lambda>u. user_id u \<noteq> 2) (users sample_db) = [alice, carol]"
    "length (users sample_db) = 3"
    by (simp_all add: sample_db_def ids)
  from deleteUserService_removes_or_raises [of 99 sample_db]
    deleteUserService_removes_or_raises [of 2 sample_db] a f
  show ?thesis by simp
qed

section \<open>Coordinates of places and profiles\<close>


lemma coordinates_apply_updateFields [simp]:
  "coordinates (apply_updateFields upd u) = coordinates u"
  by (simp add: apply_updateFields_def)

lemma has_updateFields_coords [simp]:
  "has_updateFields (upd\<lparr>upd_latitude := a, upd_longitude := b\<rparr>) = has_updateFields upd"
  by (simp add: has_updateFields_def)

lemma apply_updateFields_coords [simp]:
  "apply_updateFields (upd\<lparr>upd_latitude := a, upd_longitude := b\<rparr>) u = apply_updateFields upd u"
  by (simp add: apply_updateFields_def)






lemma sample_geog_points:
  "sample_geog (SRID4326_POINT (JNum 31) (JNum 30)) = Some \<lparr>point_lng = 31, point_lat = 30\<rparr>"
  "sample_geog (SRID4326_POINT (JNum 31) (JNum 91)) = Some \<lparr>point_lng = 31, point_lat = 89\<rparr>"
  "sample_geog (SRID4326_POINT JNull JNull) = None"
  by (simp_all add: in_geography_range_def longitude_degrees_normalize_def
      latitude_degrees_normalize_def)



text \<open>
  C3 (amended). On an engine that rejects a point text with an absent coordinate: a
  \<open>POST /places\<close> whose body lacks latitude or longitude stores nothing and is answered
  500 with \<open>Failed to create place\<close>; a body with a name and a coordinate pair that the
  engine accepts is answered 201 and appends exactly that place.
\<close>

theorem createPlace_without_coordinate:
  assumes "\<forall>v. geog (SRID4326_POINT JUndefined v) = None \<and> geog (SRID4326_POINT v JUndefined) = None"
  shows "(body_latitude body = JUndefined \<or> body_longitude body = JUndefined \<longrightarrow>
            createPlace geog d body = ((500, error_json ''Failed to create place''), d))
       \<and> (\<forall>n g. body_name body = Some n
              \<and> geog (SRID4326_POINT (body_longitude body) (body_latitude body)) = Some g \<longrightarrow>
            fst (createPlace geog d body) = (201, json ''Place created successfully'')
          \<and> places (snd (createPlace geog d body))
              = places d @ [\<lparr>place_id = place_seq d, name = n,
                              description = body_description body, location = g\<rparr>])"
  using assms by (auto simp: createPlace_def createPlaceService_def)

lemma sample_geog_undefined:
  "\<forall>v. sample_geog (SRID4326_POINT JUndefined v) = None
     \<and> sample_geog (SRID4326_POINT v JUndefined) = None"
  by (simp split: option.splits)

text \<open>
  C3 as stated fails: creating a place without latitude is answered 500, not 400.
\<close>

theorem createPlace_missing_latitude_is_500:
  "createPlace sample_geog sample_db
     \<lparr>body_name = Some ''Cafe'', body_description = None,
      body_latitude = JUndefined, body_longitude = JNum 31\<rparr>
   = ((500, error_json ''Failed to create place''), sample_db)"
  by (simp add: createPlace_def createPlaceService_def)

text \<open>The amended C3 at the sample store, without longitude and with both coordinates.\<close>

theorem createPlace_without_coordinate_witness:
  "(\<forall>v. sample_geog (SRID4326_POINT JUndefined v) = None
        \<and> sample_geog (SRID4326_POINT v JUndefined) = None)
   \<and> createPlace sample_geog sample_db
        \<lparr>body_name = Some ''Cafe'', body_description = None,
         body_latitude = JNum 30, body_longitude = JUndefined\<rparr>
       = ((500, error_json ''Failed to create place''), sample_db)
   \<and> sample_geog (SRID4326_POINT (JNum 31) (JNum 30)) = Some \<lparr>point_lng = 31, point_lat = 30\<rparr>
   \<and> fst (createPlace sample_geog sample_db
            \<lparr>body_name = Some ''Cafe'', body_description = None,
             body_latitude = JNum 30, body_longitude = JNum 31\<rparr>)
       = (201, json ''Place created successfully'')
   \<and> places (snd (createPlace sample_geog sample_db
                     \<lparr>body_name = Some ''Cafe'', body_description = None,
                      body_latitude = JNum 30, body_longitude = JNum 31\<rparr>))
       = [city_square, library_park, food_plaza,
          \<lparr>place_id = 4, name = ''Cafe'', description = None,
           location = \<lparr>point_lng = 31, point_lat = 30\<rparr>\<rparr>]"
proof -
  have g: "sample_geog (SRID4326_POINT (JNum 31) (JNum 30)) = Some \<lparr>point_lng = 31, point_lat = 30\<rparr>"
    by (rule sample_geog_points)
  from createPlace_without_coordinate [OF sample_geog_undefined, of
      "\<lparr>body_name = Some ''Cafe'', body_description = None,
        body_latitude = JNum 30, body_longitude = JUndefined\<rparr>" sample_db]
    createPlace_without_coordinate [OF sample_geog_undefined, of
      "\<lparr>body_name = Some ''Cafe'', body_description = None,
        body_latitude = JNum 30, body_longitude = JNum 31\<rparr>" sample_db]
    sample_geog_undefined g
  show ?thesis by (simp add: sample_db_def)
qed

section \<open>Limits of the nearby users endpoint\<close>

lemma parseInt_samples:
  "parseInt ''0'' = Some 0" "parseInt ''1'' = Some 1" "parseInt ''50'' = Some 50"
  "parseInt ''101'' = Some 101"
  by (simp_all add: parseInt_def is_white_space_def is_digit_def digit_value_def digits_value_def)

lemma getNearbyUsers_defaults:
  assumes "lat \<noteq> []" and "lng \<noteq> []" and "parseFloat lat = Some la" and "parseFloat lng = Some lo"
  shows "getNearbyUsers parseFloat url_transform nan_answer geodesic d (Some lat) (Some lng) None None
       = (case getNearbyUsersService geodesic d la lo (Some 10000) (Some 50) of
            Inr found \<Rightarrow>
              (200, json ((la, lo), Some 10000, length found,
                          map (\<lambda>(u, distance).
                                 (u\<lparr>avatarUrl := optimized_avatar url_transform 100 100 u\<rparr>,
                                  Math_round distance)) found))
          | Inl err \<Rightarrow> (500, error_json ''Failed to find nearby users''))"
  using assms by (simp add: getNearbyUsers_def parseInt_samples Let_def split: sum.splits)

lemma nearby_rows_all_at_centre:
  assumes "\<forall>u \<in> set us. coordinates u = Some c" and "geodesic c center = 0" and "0 \<le> r"
  shows "nearby_rows geodesic center r us = map (\<lambda>u. (u, 0)) us"
  using assms(1) unfolding nearby_rows_def
  by (induction us) (simp_all add: ST_DWithin_def ST_Distance_def round_1e8_zero assms(2,3))

lemma sorted_all_zero: "sorted (map snd (map (\<lambda>u. (u, 0::real)) us))"
  by (induction us) simp_all

lemma crowd_users:
  "length (users crowd_db) = 101"
  "\<forall>u \<in> set (users crowd_db). coordinates u = Some \<lparr>point_lng = 0, point_lat = 0\<rparr>"
  "\<forall>u \<in> set (users crowd_db). avatarUrl u = None"
  by (auto simp: crowd_db_def sample_user_def)

lemma crowd_service:
  "getNearbyUsersService sample_geodesic crowd_db 0 0 (Some 1) (Some 101)
     = Inr (map (\<lambda>u. (u, 0)) (users crowd_db))"
proof -
  have "nearby_rows sample_geodesic (ST_MakePoint 0 0) 1 (users crowd_db)
          = map (\<lambda>u. (u, 0)) (users crowd_db)"
    by (rule nearby_rows_all_at_centre [OF crowd_users(2)])
       (simp_all add: sample_geodesic_def ST_MakePoint_def)
  then show ?thesis
    by (simp add: getNearbyUsersService_def sort_key_id_if_sorted [OF sorted_all_zero] crowd_users(1))
qed

lemma avatar_absent:
  "avatarUrl u = None \<Longrightarrow> u\<lparr>avatarUrl := optimized_avatar url_transform w h u\<rparr> = u"
  by (cases u) (simp add: optimized_avatar_def)

lemma Math_round_0: "Math_round 0 = 0"
  by (simp add: Math_round_def)

text \<open>
  C5 at a failing input. With 101 users stored at the centre, \<open>GET
  /users/nearby?lat=0&lng=0&radius=1&limit=101\<close> is answered 200 with count 101: the
  supplied limit reaches the \<open>LIMIT\<close> clause as it is, and the maximum of 100 that the
  route's documentation declares is not enforced. (The defaults do hold: see
  \<open>getNearbyUsers_defaults\<close>.)
\<close>

theorem getNearbyUsers_exceeds_documented_maximum:
  "getNearbyUsers sample_parseFloat no_transform (Inr []) sample_geodesic crowd_db
     (Some ''0'') (Some ''0'') (Some ''1'') (Some ''101'')
   = (200, json ((0, 0), Some 1, 101, map (\<lambda>u. (u, 0)) (users crowd_db)))"
  using crowd_users(3)
  by (auto simp: getNearbyUsers_def sample_parseFloat_def parseInt_samples crowd_service
      avatar_absent Math_round_0 crowd_users(1))

end
